theory Spec2Isabelle
  imports Main "HOL-Library.Sublist" "HOL-Library.AList"
begin

section \<open>Paths (node:path, POSIX flavour)\<close>

text \<open>
  The storage engine calls \<^verbatim>\<open>join\<close> and \<^verbatim>\<open>dirname\<close> of \<^verbatim>\<open>path/posix\<close> and
  \<^verbatim>\<open>normalize\<close> and \<^verbatim>\<open>resolve\<close> of \<^verbatim>\<open>path\<close>. Paths are strings; the functions below
  follow Node's POSIX implementation: split at the separator, drop empty and \<^verbatim>\<open>.\<close>
  segments, let \<^verbatim>\<open>..\<close> cancel the segment before it.
\<close>

fun split_on :: "char \<Rightarrow> string \<Rightarrow> string list" where
  "split_on c [] = [[]]"
| "split_on c (x # xs) =
     (if x = c then [] # split_on c xs
      else (case split_on c xs of [] \<Rightarrow> [[x]] | w # ws \<Rightarrow> (x # w) # ws))"

fun join_with :: "string list \<Rightarrow> string" where
  "join_with [] = []"
| "join_with [s] = s"
| "join_with (s # t # ss) = s @ CHR ''/'' # join_with (t # ss)"

text \<open>
  \<^verbatim>\<open>normalizeString(path, allowAboveRoot)\<close>: the stack \<open>acc\<close> holds the kept segments,
  last one first.
\<close>

fun norm_segs :: "bool \<Rightarrow> string list \<Rightarrow> string list \<Rightarrow> string list" where
  "norm_segs up acc [] = rev acc"
| "norm_segs up acc (s # ss) =
     (if s = [] \<or> s = ''.'' then norm_segs up acc ss
      else if s = ''..'' then
        (case acc of
           [] \<Rightarrow> norm_segs up (if up then [''..''] else []) ss
         | a # as \<Rightarrow>
             if a = ''..'' then norm_segs up (''..'' # acc) ss
             else norm_segs up as ss)
      else norm_segs up (s # acc) ss)"

definition normalizeString :: "bool \<Rightarrow> string \<Rightarrow> string" where
  "normalizeString up p = join_with (norm_segs up [] (split_on CHR ''/'' p))"

definition normalize :: "string \<Rightarrow> string" where
  "normalize p =
     (if p = [] then ''.''
      else
        let isAbsolute = (hd p = CHR ''/'');
            trailingSeparator = (last p = CHR ''/'');
            q = normalizeString (\<not> isAbsolute) p
        in if q = [] then (if isAbsolute then ''/'' else if trailingSeparator then ''./'' else ''.'')
           else (if isAbsolute then ''/'' else []) @ q @ (if trailingSeparator then ''/'' else []))"

definition path_join :: "string list \<Rightarrow> string" where
  "path_join parts =
     (let ps = filter (\<lambda>a. a \<noteq> []) parts
      in if ps = [] then ''.'' else normalize (join_with ps))"

text \<open>
  \<^verbatim>\<open>resolve\<close> with one argument. The database root is absolute (the constructor stores
  \<^verbatim>\<open>resolve(db_folfer)\<close>), so the argument \<^verbatim>\<open>join(this.root, path)\<close> is absolute and
  the working directory is never consulted; a relative argument is resolved against \<^verbatim>\<open>/\<close>.
\<close>

definition resolve :: "string \<Rightarrow> string" where
  "resolve p = CHR ''/'' # normalizeString False p"

text \<open>\<^verbatim>\<open>dirname\<close>: trailing separators are skipped, then the text before the last separator
  is returned.\<close>

definition dirname :: "string \<Rightarrow> string" where
  "dirname p =
     (if p = [] then ''.''
      else
        let hasRoot = (hd p = CHR ''/'');
            body = rev (dropWhile (\<lambda>c. c = CHR ''/'') (rev (tl p)))
        in if CHR ''/'' \<notin> set body then (if hasRoot then ''/'' else ''.'')
           else
             let pre = rev (tl (dropWhile (\<lambda>c. c \<noteq> CHR ''/'') (rev body)))
             in if hasRoot \<and> pre = [] then ''//'' else hd p # pre)"

text \<open>\<^verbatim>\<open>String.prototype.startsWith\<close> is the prefix order on character lists.\<close>

definition startsWith :: "string \<Rightarrow> string \<Rightarrow> bool" where
  "startsWith p r = prefix r p"

section \<open>JSON values\<close>

text \<open>
  Documents, queries and index entries are JSON data: what \<^verbatim>\<open>JSON.parse\<close> can return.
  An object keeps its keys in insertion order, so it is an association list. Numbers are
  the integers. \<^verbatim>\<open>undefined\<close> is not a JSON value: a read that yields it returns
  \<open>None\<close>.
\<close>

datatype jsval =
    JNull
  | JBool bool
  | JNum int
  | JStr string
  | JArr "jsval list"
  | JObj "(string \<times> jsval) list"

type_synonym doc = "(string \<times> jsval) list"

datatype error =
    PathEscapeError
  | MissingRequiredFieldError
  | UniqueConstraintViolation
  | TypeError
  | SyntaxError
  | IOError

text \<open>JavaScript truthiness, as \<^verbatim>\<open>!x\<close> and \<^verbatim>\<open>x || y\<close> test it.\<close>

fun truthy :: "jsval \<Rightarrow> bool" where
  "truthy JNull = False"
| "truthy (JBool b) = b"
| "truthy (JNum n) = (n \<noteq> 0)"
| "truthy (JStr s) = (s \<noteq> [])"
| "truthy (JArr _) = True"
| "truthy (JObj _) = True"

definition truthy_opt :: "jsval option \<Rightarrow> bool" where
  "truthy_opt x = (case x of None \<Rightarrow> False | Some v \<Rightarrow> truthy v)"

fun is_primitive :: "jsval \<Rightarrow> bool" where
  "is_primitive (JArr _) = False"
| "is_primitive (JObj _) = False"
| "is_primitive _ = True"

text \<open>
  \<^verbatim>\<open>data[key] === obj[key]\<close> where \<^verbatim>\<open>obj\<close> has just been parsed from a file: primitives
  compare by value, \<^verbatim>\<open>undefined\<close> equals only itself, and an array or object of the
  query is never identical to one of the freshly parsed document.
\<close>

definition strict_eq :: "jsval option \<Rightarrow> jsval option \<Rightarrow> bool" where
  "strict_eq a b =
     (case (a, b) of
        (None, None) \<Rightarrow> True
      | (Some x, Some y) \<Rightarrow> is_primitive x \<and> x = y
      | _ \<Rightarrow> False)"

text \<open>
  \<^verbatim>\<open>obj[key]\<close>: a \<^verbatim>\<open>TypeError\<close> on \<^verbatim>\<open>undefined\<close> and \<^verbatim>\<open>null\<close>, the property of an
  object, and \<^verbatim>\<open>undefined\<close> on the other values (their own \<^verbatim>\<open>length\<close> and index
  properties are not field names of a schema).
\<close>

definition js_get :: "jsval option \<Rightarrow> string \<Rightarrow> error + jsval option" where
  "js_get obj key =
     (case obj of
        None \<Rightarrow> Inl TypeError
      | Some JNull \<Rightarrow> Inl TypeError
      | Some (JObj kvs) \<Rightarrow> Inr (map_of kvs key)
      | Some _ \<Rightarrow> Inr None)"

subsection \<open>\<^verbatim>\<open>JSON.stringify\<close> and \<^verbatim>\<open>pathsafe\<close>\<close>

definition hexchars :: string where
  "hexchars = ''0123456789abcdef''"

definition hexdigit :: "nat \<Rightarrow> char" where
  "hexdigit n = hexchars ! (n mod 16)"

definition hex_byte :: "char \<Rightarrow> string" where
  "hex_byte c = [hexdigit (of_char c div 16), hexdigit (of_char c mod 16)]"

definition escape_char :: "char \<Rightarrow> string" where
  "escape_char c =
     (if c = CHR 0x22 then [CHR 0x5C, CHR 0x22]
      else if c = CHR 0x5C then [CHR 0x5C, CHR 0x5C]
      else if c = CHR 0x08 then [CHR 0x5C, CHR ''b'']
      else if c = CHR 0x0C then [CHR 0x5C, CHR ''f'']
      else if c = CHR 0x0A then [CHR 0x5C, CHR ''n'']
      else if c = CHR 0x0D then [CHR 0x5C, CHR ''r'']
      else if c = CHR 0x09 then [CHR 0x5C, CHR ''t'']
      else if (of_char c :: nat) < 32 then [CHR 0x5C, CHR ''u'', CHR ''0'', CHR ''0''] @ hex_byte c
      else [c])"

definition quote :: "string \<Rightarrow> string" where
  "quote s = CHR 0x22 # concat (map escape_char s) @ [CHR 0x22]"

fun digits :: "nat \<Rightarrow> string" where
  "digits n = (if n < 10 then [char_of (48 + n)] else digits (n div 10) @ [char_of (48 + n mod 10)])"

declare digits.simps [simp del]

definition show_int :: "int \<Rightarrow> string" where
  "show_int i = (if i < 0 then CHR ''-'' # digits (nat (- i)) else digits (nat i))"

fun commas :: "string list \<Rightarrow> string" where
  "commas [] = []"
| "commas [s] = s"
| "commas (s # t # ss) = s @ CHR '','' # commas (t # ss)"

primrec stringify :: "jsval \<Rightarrow> string" where
  "stringify JNull = ''null''"
| "stringify (JBool b) = (if b then ''true'' else ''false'')"
| "stringify (JNum n) = show_int n"
| "stringify (JStr s) = quote s"
| "stringify (JArr xs) = CHR ''['' # commas (map stringify xs) @ '']''"
| "stringify (JObj kvs) =
     CHR ''{'' # commas (map (\<lambda>kv. quote (fst kv) @ CHR '':'' # snd kv)
                          (map (map_prod id stringify) kvs)) @ ''}''"

text \<open>\<^verbatim>\<open>Buffer.from(JSON.stringify(data), "utf-8").toString("hex")\<close>\<close>

definition pathsafe :: "jsval \<Rightarrow> string" where
  "pathsafe data = concat (map hex_byte (stringify data))"

section \<open>The file system\<close>

text \<open>
  Durable storage maps absolute, normalised paths to nodes. A file is represented by the
  value \<^verbatim>\<open>JSON.parse\<close> reads from its text: \<open>File (Some v)\<close> holds the text
  \<^verbatim>\<open>JSON.stringify(v)\<close>, \<open>File None\<close> a text that is not JSON. The directory \<^verbatim>\<open>/\<close>
  always exists.
\<close>

datatype fsnode = Dir | File "jsval option"

type_synonym disk = "(string \<times> fsnode) list"

definition node_at :: "disk \<Rightarrow> string \<Rightarrow> fsnode option" where
  "node_at d p = (if p = ''/'' then Some Dir else map_of d p)"

definition existsSync :: "disk \<Rightarrow> string \<Rightarrow> bool" where
  "existsSync d p = (node_at d p \<noteq> None)"

definition dir_chain :: "string \<Rightarrow> string list" where
  "dir_chain p =
     (let segs = norm_segs False [] (split_on CHR ''/'' p)
      in map (\<lambda>k. CHR ''/'' # join_with (take k segs)) [1 ..< Suc (length segs)])"

fun mkdirs :: "disk \<Rightarrow> string list \<Rightarrow> error + disk" where
  "mkdirs d [] = Inr d"
| "mkdirs d (p # ps) =
     (case node_at d p of
        None \<Rightarrow> mkdirs (AList.update p Dir d) ps
      | Some Dir \<Rightarrow> mkdirs d ps
      | Some (File _) \<Rightarrow> Inl IOError)"

text \<open>\<^verbatim>\<open>mkdir(p, {recursive: true})\<close>\<close>

definition mkdir_p :: "disk \<Rightarrow> string \<Rightarrow> error + disk" where
  "mkdir_p d p = mkdirs d (dir_chain p)"

text \<open>\<^verbatim>\<open>writeFile(p, JSON.stringify(v), "utf-8")\<close>\<close>

definition writeFile :: "disk \<Rightarrow> string \<Rightarrow> jsval \<Rightarrow> error + disk" where
  "writeFile d p v =
     (if node_at d p = Some Dir then Inl IOError
      else if node_at d (dirname p) \<noteq> Some Dir then Inl IOError
      else Inr (AList.update p (File (Some v)) d))"

text \<open>\<^verbatim>\<open>JSON.parse(await readFile(p, "utf-8"))\<close>\<close>

definition readFile :: "disk \<Rightarrow> string \<Rightarrow> error + jsval option" where
  "readFile d p = (case node_at d p of Some (File t) \<Rightarrow> Inr t | _ \<Rightarrow> Inl IOError)"

definition JSON_parse :: "jsval option \<Rightarrow> error + jsval" where
  "JSON_parse t = (case t of None \<Rightarrow> Inl SyntaxError | Some v \<Rightarrow> Inr v)"

definition child_name :: "string \<Rightarrow> string \<Rightarrow> string option" where
  "child_name p q =
     (let pre = (if p = ''/'' then p else p @ ''/'')
      in if prefix pre q \<and> q \<noteq> pre \<and> CHR ''/'' \<notin> set (drop (length pre) q)
         then Some (drop (length pre) q) else None)"

definition readdir :: "disk \<Rightarrow> string \<Rightarrow> error + string list" where
  "readdir d p =
     (case node_at d p of
        Some Dir \<Rightarrow> Inr (List.map_filter (\<lambda>kv. child_name p (fst kv)) d)
      | _ \<Rightarrow> Inl IOError)"

text \<open>\<^verbatim>\<open>rm(p, {force: true, recursive: true})\<close>\<close>

definition rm_rf :: "disk \<Rightarrow> string \<Rightarrow> disk" where
  "rm_rf d p = filter (\<lambda>kv. \<not> (fst kv = p \<or> prefix (p @ ''/'') (fst kv))) d"

section \<open>The storage engine\<close>

text \<open>
  \<^verbatim>\<open>PlexDB.storage\<close>. The field \<open>cache\<close> holds the entries of the \<^verbatim>\<open>Map\<close> in
  insertion order; \<open>cache_props\<close> holds the plain properties that
  \<^verbatim>\<open>this.storage.cache[path] = data\<close> puts on the same object. \<^verbatim>\<open>has\<close>, \<^verbatim>\<open>delete\<close>,
  \<^verbatim>\<open>size\<close> and \<^verbatim>\<open>keys\<close> see the entries only. Logical paths are file paths
  (\<^verbatim>\<open>data/user/...\<close>, \<^verbatim>\<open>.plexmeta\<close>); a path that spells a member of
  \<^verbatim>\<open>Map.prototype\<close> is outside the model. \<open>events\<close> is the sequence of
  notifications emitted so far.
\<close>

datatype event =
    EvWrite doc
  | EvCreate doc
  | EvDelete "jsval option"
  | EvQuery doc "jsval option list"

record state =
  root :: string
  cache :: "(string \<times> jsval) list"
  cache_props :: "(string \<times> jsval) list"
  disk :: disk
  events :: "event list"

definition emit :: "event \<Rightarrow> state \<Rightarrow> state" where
  "emit e s = s\<lparr>events := events s @ [e]\<rparr>"

definition cache_has :: "state \<Rightarrow> string \<Rightarrow> bool" where
  "cache_has s path = (map_of (cache s) path \<noteq> None)"

text \<open>
  The eviction timer: while the map holds 10000 entries or more, the inner loop deletes
  the next 200 keys of the iterator.
\<close>

function evict :: "(string \<times> jsval) list \<Rightarrow> (string \<times> jsval) list" where
  "evict es = (if length es \<ge> 10000 then evict (drop 200 es) else es)"
  by pat_completeness auto
termination
  by (relation "measure length") auto

definition cacheClear :: "state \<Rightarrow> state" where
  "cacheClear s = (if length (cache s) < 10000 then s else s\<lparr>cache := evict (cache s)\<rparr>)"

definition storage_prefix :: "string \<Rightarrow> string \<Rightarrow> error + string" where
  "storage_prefix r path =
     (let p = resolve (normalize (path_join [r, path]))
      in if \<not> startsWith p r then Inl PathEscapeError else Inr p)"

text \<open>\<^verbatim>\<open>if (!existsSync(dirname(path))) await mkdir(dirname(path), {recursive: true})\<close>\<close>

definition ensure_parent :: "disk \<Rightarrow> string \<Rightarrow> error + disk" where
  "ensure_parent d p = (if \<not> existsSync d (dirname p) then mkdir_p d (dirname p) else Inr d)"

definition storage_read :: "state \<Rightarrow> string \<Rightarrow> error + jsval option" where
  "storage_read s path =
     (if cache_has s path then Inr (map_of (cache_props s) path)
      else
        case storage_prefix (root s) path of
          Inl e \<Rightarrow> Inl e
        | Inr p \<Rightarrow>
            if \<not> existsSync (disk s) p then Inr None
            else (case readFile (disk s) p of
                    Inl e \<Rightarrow> Inl e
                  | Inr t \<Rightarrow> (case JSON_parse t of Inl e \<Rightarrow> Inl e | Inr v \<Rightarrow> Inr (Some v))))"

definition storage_write :: "state \<Rightarrow> string \<Rightarrow> jsval \<Rightarrow> (error + unit) \<times> state" where
  "storage_write s path data =
     (let s1 = s\<lparr>cache_props := AList.update path data (cache_props s)\<rparr>
      in case storage_prefix (root s1) path of
           Inl e \<Rightarrow> (Inl e, s1)
         | Inr p \<Rightarrow>
             (case ensure_parent (disk s1) p of
                Inl e \<Rightarrow> (Inl e, s1)
              | Inr d \<Rightarrow>
                  (case writeFile d p data of
                     Inl e \<Rightarrow> (Inl e, s1\<lparr>disk := d\<rparr>)
                   | Inr d' \<Rightarrow> (Inr (), s1\<lparr>disk := d'\<rparr>))))"

definition storage_exists :: "state \<Rightarrow> string \<Rightarrow> error + bool" where
  "storage_exists s path =
     (if cache_has s path then Inr True
      else case storage_prefix (root s) path of
             Inl e \<Rightarrow> Inl e
           | Inr p \<Rightarrow> Inr (existsSync (disk s) p))"

definition storage_list :: "state \<Rightarrow> string \<Rightarrow> error + string list option" where
  "storage_list s path =
     (case storage_exists s path of
        Inl e \<Rightarrow> Inl e
      | Inr b \<Rightarrow>
          if \<not> b then Inr None
          else (case storage_prefix (root s) path of
                  Inl e \<Rightarrow> Inl e
                | Inr p \<Rightarrow> (case readdir (disk s) p of Inl e \<Rightarrow> Inl e | Inr ns \<Rightarrow> Inr (Some ns))))"

definition storage_remove :: "state \<Rightarrow> string \<Rightarrow> (error + unit) \<times> state" where
  "storage_remove s path =
     (case storage_prefix (root s) path of
        Inl e \<Rightarrow> (Inl e, s)
      | Inr p \<Rightarrow>
          let s1 = s\<lparr>cache := filter (\<lambda>kv. fst kv \<noteq> p) (cache s)\<rparr>
          in case storage_exists s1 path of
               Inl e \<Rightarrow> (Inl e, s1)
             | Inr b \<Rightarrow>
                 if b then
                   (case storage_prefix (root s1) path of
                      Inl e \<Rightarrow> (Inl e, s1)
                    | Inr p' \<Rightarrow> (Inr (), s1\<lparr>disk := rm_rf (disk s1) p'\<rparr>))
                 else (Inr (), s1))"

definition storage_makedir :: "state \<Rightarrow> string \<Rightarrow> (error + unit) \<times> state" where
  "storage_makedir s path =
     (case storage_prefix (root s) path of
        Inl e \<Rightarrow> (Inl e, s)
      | Inr p \<Rightarrow> (case mkdir_p (disk s) p of
                    Inl e \<Rightarrow> (Inl e, s)
                  | Inr d \<Rightarrow> (Inr (), s\<lparr>disk := d\<rparr>)))"

text \<open>The constructor: \<^verbatim>\<open>root = resolve(db_folfer)\<close>, a new empty \<^verbatim>\<open>Map\<close>.\<close>

definition PlexDB :: "string \<Rightarrow> disk \<Rightarrow> state" where
  "PlexDB db_folfer d =
     \<lparr>root = resolve db_folfer, cache = [], cache_props = [], disk = d, events = []\<rparr>"

section \<open>Collections\<close>

datatype default_kind = NoDefault | DefaultValue jsval | DefaultProducer

record field =
  fd_index :: bool
  fd_unique :: bool
  fd_default :: default_kind
  fd_required :: bool

record collection =
  name :: string
  schema :: "(string \<times> field) list"

text \<open>
  The constructor assigns the \<^verbatim>\<open>id\<close> descriptor (its producer is \<^verbatim>\<open>randomUUID\<close>) and
  starts, without awaiting them, the \<^verbatim>\<open>makedir\<close> calls for the data area, the index
  area and every indexed field other than \<^verbatim>\<open>id\<close>; a failing call leaves the state as
  it is.
\<close>

definition id_field :: field where
  "id_field = \<lparr>fd_index = True, fd_unique = True, fd_default = DefaultProducer, fd_required = True\<rparr>"

definition makedir_quiet :: "state \<Rightarrow> string \<Rightarrow> state" where
  "makedir_quiet s path = snd (storage_makedir s path)"

definition Collection :: "string \<Rightarrow> (string \<times> field) list \<Rightarrow> state \<Rightarrow> collection \<times> state" where
  "Collection nm sch s =
     (let sch' = AList.update ''id'' id_field sch;
          s1 = makedir_quiet s (path_join [''data'', nm]);
          s2 = makedir_quiet s1 (path_join [''index'', nm]);
          s3 = fold (\<lambda>kf st. if fst kf = ''id'' then st
                              else if fd_index (snd kf)
                                   then makedir_quiet st (path_join [''index'', nm, fst kf])
                                   else st) sch' s2
      in (\<lparr>name = nm, schema = sch'\<rparr>, s3))"

subsection \<open>Queries\<close>

definition set_add :: "'a \<Rightarrow> 'a list \<Rightarrow> 'a list" where
  "set_add x xs = (if x \<in> set xs then xs else xs @ [x])"

definition index_path :: "collection \<Rightarrow> string \<Rightarrow> jsval option \<Rightarrow> error + string" where
  "index_path c key v =
     (case v of
        None \<Rightarrow> Inl TypeError
      | Some x \<Rightarrow> Inr (path_join [''index'', name c, key, pathsafe x]))"

text \<open>
  The first phase of \<^verbatim>\<open>findOne\<close> and \<^verbatim>\<open>findAll\<close>: every queried key other than
  \<^verbatim>\<open>id\<close> whose descriptor has \<^verbatim>\<open>index\<close> set contributes the ids of its index entry to
  the candidate set. The callbacks are taken in key order.
\<close>

fun gather :: "collection \<Rightarrow> state \<Rightarrow> doc \<Rightarrow> string list \<Rightarrow> jsval option list
                \<Rightarrow> error + jsval option list" where
  "gather c s q [] cands = Inr cands"
| "gather c s q (key # keys) cands =
     (if key = ''id'' then gather c s q keys cands
      else
        case map_of (schema c) key of
          None \<Rightarrow> gather c s q keys cands
        | Some fd \<Rightarrow>
            if \<not> fd_index fd then gather c s q keys cands
            else
              (case index_path c key (map_of q key) of
                 Inl e \<Rightarrow> Inl e
               | Inr indexPath \<Rightarrow>
                   (case storage_exists s indexPath of
                      Inl e \<Rightarrow> Inl e
                    | Inr ex \<Rightarrow>
                        if \<not> ex then gather c s q keys cands
                        else
                          (case storage_read s indexPath of
                             Inl e \<Rightarrow> Inl e
                           | Inr fileContent \<Rightarrow>
                               if fd_unique fd then gather c s q keys (set_add fileContent cands)
                               else
                                 (case fileContent of
                                    Some (JArr uuids) \<Rightarrow>
                                      gather c s q keys (fold set_add (map Some uuids) cands)
                                  | _ \<Rightarrow> Inl TypeError)))))"

text \<open>\<^verbatim>\<open>Object.keys(data).every(key => data[key] === obj[key])\<close>\<close>

fun every_match :: "doc \<Rightarrow> string list \<Rightarrow> jsval option \<Rightarrow> error + bool" where
  "every_match q [] obj = Inr True"
| "every_match q (key # keys) obj =
     (case js_get obj key of
        Inl e \<Rightarrow> Inl e
      | Inr v \<Rightarrow> if strict_eq (map_of q key) v then every_match q keys obj else Inr False)"

text \<open>\<^verbatim>\<open>join("data", this.name, candidate)\<close> throws unless the candidate is a string.\<close>

definition data_path :: "collection \<Rightarrow> jsval option \<Rightarrow> error + string" where
  "data_path c cand =
     (case cand of
        Some (JStr i) \<Rightarrow> Inr (path_join [''data'', name c, i])
      | _ \<Rightarrow> Inl TypeError)"

fun findOne_loop :: "collection \<Rightarrow> state \<Rightarrow> doc \<Rightarrow> jsval option list
                      \<Rightarrow> (error + jsval option) \<times> state" where
  "findOne_loop c s q [] = (Inr None, s)"
| "findOne_loop c s q (candidate # rest) =
     (case data_path c candidate of
        Inl e \<Rightarrow> (Inl e, s)
      | Inr p \<Rightarrow>
          (case storage_read s p of
             Inl e \<Rightarrow> (Inl e, s)
           | Inr obj \<Rightarrow>
               (case every_match q (map fst q) obj of
                  Inl e \<Rightarrow> (Inl e, s)
                | Inr ok \<Rightarrow>
                    if ok then (Inr obj, emit (EvQuery q [obj]) s)
                    else findOne_loop c s q rest)))"

definition findOne :: "collection \<Rightarrow> state \<Rightarrow> doc \<Rightarrow> (error + jsval option) \<times> state" where
  "findOne c s q =
     (case gather c s q (map fst q) [] of
        Inl e \<Rightarrow> (Inl e, s)
      | Inr candidates \<Rightarrow> findOne_loop c s q candidates)"

fun findAll_loop :: "collection \<Rightarrow> state \<Rightarrow> doc \<Rightarrow> jsval option list \<Rightarrow> jsval option list
                      \<Rightarrow> error + jsval option list" where
  "findAll_loop c s q [] results = Inr results"
| "findAll_loop c s q (candidate # rest) results =
     (case data_path c candidate of
        Inl e \<Rightarrow> Inl e
      | Inr p \<Rightarrow>
          (case storage_read s p of
             Inl e \<Rightarrow> Inl e
           | Inr obj \<Rightarrow>
               (case every_match q (map fst q) obj of
                  Inl e \<Rightarrow> Inl e
                | Inr ok \<Rightarrow>
                    findAll_loop c s q rest (if ok then results @ [obj] else results))))"

definition findAll :: "collection \<Rightarrow> state \<Rightarrow> doc \<Rightarrow> (error + jsval option list) \<times> state" where
  "findAll c s q =
     (case gather c s q (map fst q) [] of
        Inl e \<Rightarrow> (Inl e, s)
      | Inr candidates \<Rightarrow>
          (case findAll_loop c s q candidates [] of
             Inl e \<Rightarrow> (Inl e, s)
           | Inr results \<Rightarrow> (Inr results, emit (EvQuery q results) s)))"


subsection \<open>\<^verbatim>\<open>write\<close> and \<^verbatim>\<open>delete\<close>\<close>

text \<open>
  Both build one promise per key and await them all. A callback that throws rejects its
  own promise only, the others still run, and the call rejects with an error of one of
  them: the model runs the callbacks in key order, keeps going after a failure and
  reports the first one.
\<close>

definition first_error :: "error option \<Rightarrow> error + unit \<Rightarrow> error option" where
  "first_error acc r = (case acc of Some e \<Rightarrow> Some e | None \<Rightarrow> (case r of Inl e \<Rightarrow> Some e | Inr _ \<Rightarrow> None))"

definition settle :: "error option \<Rightarrow> error + unit" where
  "settle acc = (case acc of None \<Rightarrow> Inr () | Some e \<Rightarrow> Inl e)"

definition write_key :: "collection \<Rightarrow> doc \<Rightarrow> jsval \<Rightarrow> string \<Rightarrow> state \<Rightarrow> (error + unit) \<times> state" where
  "write_key c data idv key s =
     (if key = ''id'' then (Inr (), s)
      else
        case map_of (schema c) key of
          None \<Rightarrow> (Inl TypeError, s)
        | Some fd \<Rightarrow>
            if \<not> fd_index fd then (Inr (), s)
            else
              (case index_path c key (map_of data key) of
                 Inl e \<Rightarrow> (Inl e, s)
               | Inr indexPath \<Rightarrow>
                   if fd_unique fd then storage_write s indexPath idv
                   else
                     (case storage_read s indexPath of
                        Inl e \<Rightarrow> (Inl e, s)
                      | Inr content \<Rightarrow>
                          (case (if truthy_opt content then content else Some (JArr [])) of
                             Some (JArr ids) \<Rightarrow>
                               (case storage_write s indexPath (JArr (ids @ [idv])) of
                                  (Inl e, s') \<Rightarrow> (Inl e, s')
                                | (Inr _, s') \<Rightarrow> (Inr (), emit (EvWrite data) s'))
                           | _ \<Rightarrow> (Inl TypeError, s)))))"

fun write_keys :: "collection \<Rightarrow> doc \<Rightarrow> jsval \<Rightarrow> string list \<Rightarrow> error option \<Rightarrow> state
                    \<Rightarrow> error option \<times> state" where
  "write_keys c data idv [] acc s = (acc, s)"
| "write_keys c data idv (key # keys) acc s =
     (case write_key c data idv key s of
        (r, s') \<Rightarrow> write_keys c data idv keys (first_error acc r) s')"

definition write_doc :: "collection \<Rightarrow> state \<Rightarrow> doc \<Rightarrow> (error + unit) \<times> state" where
  "write_doc c s data =
     (let s0 = emit (EvWrite data) s
      in case data_path c (map_of data ''id'') of
           Inl e \<Rightarrow> (Inl e, s0)
         | Inr p \<Rightarrow>
             (case storage_write s0 p (JObj data) of
                (r0, s1) \<Rightarrow>
                  (case write_keys c data (the (map_of data ''id'')) (map fst data)
                          (first_error None r0) s1 of
                     (acc, s2) \<Rightarrow> (settle acc, s2))))"





subsection \<open>\<^verbatim>\<open>create\<close>\<close>

text \<open>
  \<^verbatim>\<open>create\<close> assigns into the object it is given, so the model returns that object
  next to the outcome. What the producers return in this call is an input: \<open>uuid\<close>
  for \<^verbatim>\<open>randomUUID\<close>, \<open>produced key\<close> for the producer of a field. The uniqueness
  probe is \<^verbatim>\<open>findOne({[key]: data[key]})\<close>; with \<^verbatim>\<open>data[key]\<close> undefined it throws in
  \<^verbatim>\<open>pathsafe\<close> when the field is indexed and finds nothing otherwise.
\<close>

definition resolve_default :: "field \<Rightarrow> string \<Rightarrow> (string \<Rightarrow> jsval) \<Rightarrow> doc \<Rightarrow> error + doc" where
  "resolve_default fd key produced data =
     (if fd_required fd \<and> \<not> truthy_opt (map_of data key) then
        (case fd_default fd of
           NoDefault \<Rightarrow> Inl MissingRequiredFieldError
         | DefaultProducer \<Rightarrow> Inr (AList.update key (produced key) data)
         | DefaultValue v \<Rightarrow>
             if \<not> truthy v then Inl MissingRequiredFieldError
             else Inr (AList.update key v data))
      else Inr data)"

definition unique_probe :: "collection \<Rightarrow> state \<Rightarrow> field \<Rightarrow> string \<Rightarrow> doc
                             \<Rightarrow> (error + unit) \<times> state" where
  "unique_probe c s fd key data =
     (if \<not> fd_unique fd then (Inr (), s)
      else
        case map_of data key of
          None \<Rightarrow> if fd_index fd \<and> key \<noteq> ''id'' then (Inl TypeError, s) else (Inr (), s)
        | Some v \<Rightarrow>
            (case findOne c s [(key, v)] of
               (Inl e, s') \<Rightarrow> (Inl e, s')
             | (Inr found, s') \<Rightarrow>
                 if truthy_opt found then (Inl UniqueConstraintViolation, s')
                 else (Inr (), s')))"

text \<open>The assignment one iteration makes for its key, before the uniqueness probe.\<close>

definition assign_field :: "field \<Rightarrow> string \<Rightarrow> string \<Rightarrow> (string \<Rightarrow> jsval) \<Rightarrow> doc \<Rightarrow> error + doc" where
  "assign_field fd key uuid produced data =
     (if key = ''id'' then
        (case fd_default fd of
           DefaultProducer \<Rightarrow> Inr (AList.update key (JStr uuid) data)
         | _ \<Rightarrow> Inl TypeError)
      else resolve_default fd key produced data)"

fun create_loop :: "collection \<Rightarrow> string \<Rightarrow> (string \<Rightarrow> jsval) \<Rightarrow> (string \<times> field) list \<Rightarrow> doc
                     \<Rightarrow> state \<Rightarrow> (error + unit) \<times> doc \<times> state" where
  "create_loop c uuid produced [] data s = (Inr (), data, s)"
| "create_loop c uuid produced ((key, fd) # rest) data s =
     (case assign_field fd key uuid produced data of
        Inl e \<Rightarrow> (Inl e, data, s)
      | Inr data' \<Rightarrow>
          if key = ''id'' then create_loop c uuid produced rest data' s
          else
            (case unique_probe c s fd key data' of
               (Inl e, s') \<Rightarrow> (Inl e, data', s')
             | (Inr _, s') \<Rightarrow> create_loop c uuid produced rest data' s'))"

definition create :: "collection \<Rightarrow> state \<Rightarrow> string \<Rightarrow> (string \<Rightarrow> jsval) \<Rightarrow> doc
                       \<Rightarrow> (error + doc) \<times> doc \<times> state" where
  "create c s uuid produced data =
     (case create_loop c uuid produced (schema c) data s of
        (Inl e, data', s') \<Rightarrow> (Inl e, data', s')
      | (Inr _, data', s') \<Rightarrow> (Inr data', data', emit (EvCreate data') s'))"

section \<open>Sequences of storage operations\<close>

text \<open>
  A client of \<^verbatim>\<open>storage\<close> issues operations one after the other; \<open>Tick\<close> is one
  firing of the eviction timer. \<open>run\<close> returns what each operation returned and the
  state reached.
\<close>

datatype op =
    Read string
  | Write string jsval
  | Exists string
  | List string
  | Remove string
  | Makedir string
  | Tick

datatype obs =
    ORead "error + jsval option"
  | OWrite "error + unit"
  | OExists "error + bool"
  | OList "error + string list option"
  | ORemove "error + unit"
  | OMakedir "error + unit"
  | OTick

fun step :: "state \<Rightarrow> op \<Rightarrow> obs \<times> state" where
  "step s (Read p) = (ORead (storage_read s p), s)"
| "step s (Write p v) = (case storage_write s p v of (r, s') \<Rightarrow> (OWrite r, s'))"
| "step s (Exists p) = (OExists (storage_exists s p), s)"
| "step s (List p) = (OList (storage_list s p), s)"
| "step s (Remove p) = (case storage_remove s p of (r, s') \<Rightarrow> (ORemove r, s'))"
| "step s (Makedir p) = (case storage_makedir s p of (r, s') \<Rightarrow> (OMakedir r, s'))"
| "step s Tick = (OTick, cacheClear s)"

fun run :: "state \<Rightarrow> op list \<Rightarrow> obs list \<times> state" where
  "run s [] = ([], s)"
| "run s (x # xs) =
     (case step s x of (b, s') \<Rightarrow> (case run s' xs of (bs, s'') \<Rightarrow> (b # bs, s'')))"









text \<open>The paths \<^verbatim>\<open>k\<close>, \<^verbatim>\<open>kk\<close>, \<^verbatim>\<open>kkk\<close>, ...: as many distinct keys as wanted.\<close>

definition key_of :: "nat \<Rightarrow> string" where
  "key_of i = replicate (Suc i) CHR ''k''"

definition writes_of :: "nat list \<Rightarrow> op list" where
  "writes_of ns = map (\<lambda>i. Write (key_of i) JNull) ns"

text \<open>
  A resolved path lies under the root directory when the root's segments are the first
  segments of the path.
\<close>

definition inside_root :: "string \<Rightarrow> string \<Rightarrow> bool" where
  "inside_root r p =
     prefix (norm_segs False [] (split_on CHR ''/'' r)) (norm_segs False [] (split_on CHR ''/'' p))"

section \<open>Well-formed names\<close>

text \<open>
  A plain segment is a file name: not empty, without separator, and neither \<^verbatim>\<open>.\<close> nor
  \<^verbatim>\<open>..\<close>. Collection names, field names and document ids are plain segments; so is
  every result of \<^verbatim>\<open>randomUUID\<close> and of \<^verbatim>\<open>pathsafe\<close>.
\<close>

definition plain_seg :: "string \<Rightarrow> bool" where
  "plain_seg x = (x \<noteq> [] \<and> CHR ''/'' \<notin> set x \<and> x \<noteq> ''.'' \<and> x \<noteq> ''..'')"






section \<open>Notions used in the proofs\<close>

definition same_storage :: "state \<Rightarrow> state \<Rightarrow> bool" where
  "same_storage s s' =
     (disk s' = disk s \<and> cache s' = cache s \<and> cache_props s' = cache_props s \<and> root s' = root s)"

text \<open>What an operation that only adds directories may do to the node at \<open>q\<close>.\<close>

definition grows :: "disk \<Rightarrow> disk \<Rightarrow> string \<Rightarrow> bool" where
  "grows d d' q = (map_of d' q = map_of d q \<or> (map_of d q = None \<and> map_of d' q = Some Dir))"



text \<open>The keys that the first phase of a query looks up in an index.\<close>

definition probed :: "collection \<Rightarrow> string \<Rightarrow> bool" where
  "probed c key =
     (key \<noteq> ''id'' \<and> (case map_of (schema c) key of None \<Rightarrow> False | Some fd \<Rightarrow> fd_index fd))"


section \<open>A small database\<close>

text \<open>
  The collection \<^verbatim>\<open>user\<close> of the demo entry point, with a non-unique indexed field, a
  field that is not indexed and a constant default added, in a database at \<^verbatim>\<open>/db\<close>.
\<close>

definition ex_schema :: "(string \<times> field) list" where
  "ex_schema =
     [(''id'', \<lparr>fd_index = False, fd_unique = False, fd_default = NoDefault, fd_required = False\<rparr>),
      (''username'', \<lparr>fd_index = True, fd_unique = True, fd_default = DefaultProducer, fd_required = True\<rparr>),
      (''tag'', \<lparr>fd_index = True, fd_unique = False, fd_default = NoDefault, fd_required = False\<rparr>),
      (''age'', \<lparr>fd_index = False, fd_unique = False, fd_default = NoDefault, fd_required = False\<rparr>),
      (''role'', \<lparr>fd_index = False, fd_unique = False, fd_default = DefaultValue (JStr ''member''), fd_required = True\<rparr>)]"

definition ex_coll :: collection where
  "ex_coll = fst (Collection ''user'' ex_schema (PlexDB ''/db'' [(''/db'', Dir)]))"

definition ex_s0 :: state where
  "ex_s0 = snd (Collection ''user'' ex_schema (PlexDB ''/db'' [(''/db'', Dir)]))"

definition ex_uuid1 :: string where
  "ex_uuid1 = ''3b241101-e2bb-4255-8caf-4136c566a962''"


definition ex_produced :: "string \<Rightarrow> jsval" where
  "ex_produced key = JStr ''UM2WLsIxHnCKnRkp5TRD''"

definition ex_doc1 :: doc where
  "ex_doc1 = [(''username'', JStr ''alice''), (''tag'', JStr ''t''), (''age'', JNum 1),
              (''id'', JStr ex_uuid1), (''role'', JStr ''member'')]"


text \<open>The first document is created from \<open>ex_input1\<close> and written; then the second is written.\<close>

definition ex_input1 :: doc where
  "ex_input1 = [(''username'', JStr ''alice''), (''tag'', JStr ''t''), (''age'', JNum 1)]"

definition ex_created :: "(error + doc) \<times> doc \<times> state" where
  "ex_created = create ex_coll ex_s0 ex_uuid1 ex_produced ex_input1"

definition ex_s1 :: state where
  "ex_s1 = snd (write_doc ex_coll (snd (snd ex_created)) ex_doc1)"









section \<open>Facts about paths\<close>

lemma split_on_nonempty [simp]: "split_on c xs \<noteq> []"
  by (induction xs) (auto split: list.splits)




































lemma plain_literals [simp]: "plain_seg ''data''" "plain_seg ''index''"
  by (simp_all add: plain_seg_def)


section \<open>Frame properties of the storage engine\<close>

lemma emit_fields [simp]:
  "disk (emit e s) = disk s" "cache (emit e s) = cache s" "root (emit e s) = root s"
  "cache_props (emit e s) = cache_props s"
  by (simp_all add: emit_def)

lemma grows_refl [simp]: "grows d d q"
  by (simp add: grows_def)


lemma grows_keeps: "grows d d' q \<Longrightarrow> map_of d q = Some x \<Longrightarrow> map_of d' q = Some x"
  by (auto simp: grows_def)






lemma storage_write_prefix_fail:
  "storage_write s path v = (r, s') \<Longrightarrow> storage_prefix (root s) path = Inl e \<Longrightarrow> disk s' = disk s"
  by (auto simp: storage_write_def Let_def)









section \<open>Where documents and index entries live\<close>










section \<open>The effect of \<^verbatim>\<open>write\<close>\<close>




lemma first_error_Some [simp]: "first_error (Some e) r = Some e"
  by (simp add: first_error_def)














section \<open>Reads and probes leave storage alone\<close>

lemma same_storage_refl [simp]: "same_storage s s" "same_storage s (emit e s)"
  by (simp_all add: same_storage_def)

lemma same_storage_trans: "same_storage s s1 \<Longrightarrow> same_storage s1 s2 \<Longrightarrow> same_storage s s2"
  by (simp add: same_storage_def)

lemma findOne_loop_same: "findOne_loop c s q cands = (r, s') \<Longrightarrow> same_storage s s'"
  by (induction cands) (auto split: sum.splits if_splits)

lemma findOne_same: "findOne c s q = (r, s') \<Longrightarrow> same_storage s s'"
  by (auto simp: findOne_def split: sum.splits dest: findOne_loop_same)

lemma unique_probe_same: "unique_probe c s fd key data = (r, s') \<Longrightarrow> same_storage s s'"
  by (auto simp: unique_probe_def split: option.splits sum.splits prod.splits if_splits
           dest: findOne_same)

lemma create_loop_same:
  "create_loop c uuid produced ks data s = (r, d', s') \<Longrightarrow> same_storage s s'"
proof (induction ks arbitrary: data s)
  case Nil
  then show ?case by simp
next
  case (Cons kf ks)
  obtain key fd where kf: "kf = (key, fd)" by (cases kf)
  show ?case
  proof (cases "assign_field fd key uuid produced data")
    case (Inl e)
    then show ?thesis using Cons.prems by (simp add: kf)
  next
    case (Inr d1)
    show ?thesis
    proof (cases "key = ''id''")
      case True
      then show ?thesis using Cons.prems Inr Cons.IH by (simp add: kf)
    next
      case False
      obtain pr s1 where up: "unique_probe c s fd key d1 = (pr, s1)"
        by (cases "unique_probe c s fd key d1")
      have a: "same_storage s s1" using up by (rule unique_probe_same)
      show ?thesis
      proof (cases pr)
        case (Inl e)
        then show ?thesis using Cons.prems Inr False up a by (simp add: kf)
      next
        case (Inr u)
        then have "create_loop c uuid produced ks d1 s1 = (r, d', s')"
          using Cons.prems \<open>assign_field fd key uuid produced data = Inr d1\<close> False up
          by (simp add: kf)
        then have "same_storage s1 s'" by (rule Cons.IH)
        with a show ?thesis by (rule same_storage_trans)
      qed
    qed
  qed
qed


text \<open>
  C5. \<^verbatim>\<open>create\<close> never writes to storage: whatever it returns or throws, the files on
  disk after the call are the files before it (and the cache object is untouched).
\<close>

theorem create_never_writes:
  "disk (snd (snd (create c s uuid produced data))) = disk s
   \<and> cache_props (snd (snd (create c s uuid produced data))) = cache_props s
   \<and> cache (snd (snd (create c s uuid produced data))) = cache s"
proof -
  obtain r d' s' where cl: "create_loop c uuid produced (schema c) data s = (r, d', s')"
    by (cases "create_loop c uuid produced (schema c) data s") auto
  then have "same_storage s s'" by (rule create_loop_same)
  then show ?thesis by (cases r) (simp_all add: create_def cl same_storage_def)
qed


section \<open>Round trip\<close>







lemma surj_triple: "fst x = a \<Longrightarrow> fst (snd x) = b \<Longrightarrow> x = (a, b, snd (snd x))"
  by (cases x) auto

lemma surj_pair: "fst x = a \<Longrightarrow> x = (a, snd x)"
  by (cases x) auto

lemma ex_created: "ex_created = (Inr ex_doc1, ex_doc1, snd (snd ex_created))"
proof -
  have "fst ex_created = Inr ex_doc1" "fst (snd ex_created) = ex_doc1" by code_simp+
  then show ?thesis by (rule surj_triple)
qed




section \<open>Uniqueness\<close>








section \<open>Index coherence\<close>











section \<open>Which fields a query checks\<close>

lemma gather_skip: "\<not> probed c key \<Longrightarrow> gather c s q (key # keys) cands = gather c s q keys cands"
  by (auto simp: probed_def split: option.splits)

lemma gather_filter: "gather c s q keys cands = gather c s q (filter (probed c) keys) cands"
proof (induction keys arbitrary: cands)
  case Nil
  then show ?case by simp
next
  case (Cons key keys)
  show ?case
  proof (cases "probed c key")
    case False
    have "gather c s q (key # keys) cands = gather c s q keys cands"
      using False by (rule gather_skip)
    also have "\<dots> = gather c s q (filter (probed c) keys) cands" by (rule Cons.IH)
    also have "filter (probed c) keys = filter (probed c) (key # keys)" using False by simp
    finally show ?thesis .
  next
    case True
    then have f: "filter (probed c) (key # keys) = key # filter (probed c) keys" by simp
    show ?thesis
      unfolding f gather.simps
      by (simp add: Cons.IH split: option.splits sum.splits jsval.splits)
  qed
qed

lemma every_match_key:
  "every_match q keys obj = Inr True \<Longrightarrow> k \<in> set keys \<Longrightarrow>
     \<exists>v. js_get obj k = Inr v \<and> strict_eq (map_of q k) v"
proof (induction keys)
  case Nil
  then show ?case by simp
next
  case (Cons key keys)
  then show ?case by (cases "js_get obj key") (auto split: if_splits)
qed

lemma findOne_loop_match:
  "findOne_loop c s q cands = (Inr (Some obj), s') \<Longrightarrow> every_match q (map fst q) (Some obj) = Inr True"
proof (induction cands)
  case Nil
  then show ?case by simp
next
  case (Cons cand cands)
  then show ?case by (auto split: sum.splits if_splits)
qed

lemma findAll_loop_match:
  "findAll_loop c s q cands acc = Inr results \<Longrightarrow>
   \<forall>x\<in>set acc. every_match q (map fst q) x = Inr True \<Longrightarrow>
   \<forall>x\<in>set results. every_match q (map fst q) x = Inr True"
proof (induction cands arbitrary: acc)
  case Nil
  then show ?case by simp
next
  case (Cons cand cands)
  obtain p where p: "data_path c cand = Inr p"
    using Cons.prems(1) by (cases "data_path c cand") simp_all
  obtain obj where o: "storage_read s p = Inr obj"
    using Cons.prems(1) p by (cases "storage_read s p") simp_all
  obtain ok where m: "every_match q (map fst q) obj = Inr ok"
    using Cons.prems(1) p o by (cases "every_match q (map fst q) obj") simp_all
  let ?acc = "if ok then acc @ [obj] else acc"
  have rest: "findAll_loop c s q cands ?acc = Inr results"
    using Cons.prems(1) p o m by simp
  have "\<forall>x\<in>set ?acc. every_match q (map fst q) x = Inr True"
    using Cons.prems(2) m by auto
  then show ?case using Cons.IH [OF rest] by blast
qed

text \<open>
  C7, as amended. Queried fields that are not marked indexed are ignored when the
  candidates are gathered, but the final pass does filter against them: whatever
  \<^verbatim>\<open>findOne\<close> or \<^verbatim>\<open>findAll\<close> returns strictly equals the query on every queried field,
  indexed or not.
\<close>

theorem final_pass_checks_every_field:
  "gather c s q (map fst q) [] = gather c s q (filter (probed c) (map fst q)) []
   \<and> (findOne c s q = (Inr (Some obj), s') \<longrightarrow> k \<in> set (map fst q) \<longrightarrow>
        (\<exists>v. js_get (Some obj) k = Inr v \<and> strict_eq (map_of q k) v))
   \<and> (fst (findAll c s q) = Inr results \<longrightarrow> x \<in> set results \<longrightarrow> k \<in> set (map fst q) \<longrightarrow>
        (\<exists>v. js_get x k = Inr v \<and> strict_eq (map_of q k) v))"
proof (intro conjI impI)
  show "gather c s q (map fst q) [] = gather c s q (filter (probed c) (map fst q)) []"
    by (rule gather_filter)
next
  assume f: "findOne c s q = (Inr (Some obj), s')" and k: "k \<in> set (map fst q)"
  obtain cands where "findOne_loop c s q cands = (Inr (Some obj), s')"
    using f by (cases "gather c s q (map fst q) []") (simp_all add: findOne_def)
  then have "every_match q (map fst q) (Some obj) = Inr True" by (rule findOne_loop_match)
  then show "\<exists>v. js_get (Some obj) k = Inr v \<and> strict_eq (map_of q k) v"
    using k by (rule every_match_key)
next
  assume f: "fst (findAll c s q) = Inr results" and x: "x \<in> set results" and k: "k \<in> set (map fst q)"
  obtain cands where g: "gather c s q (map fst q) [] = Inr cands"
    using f by (cases "gather c s q (map fst q) []") (simp_all add: findAll_def)
  have "findAll_loop c s q cands [] = Inr results"
    using f g by (cases "findAll_loop c s q cands []") (simp_all add: findAll_def)
  then have "\<forall>x\<in>set results. every_match q (map fst q) x = Inr True"
    by (rule findAll_loop_match) simp
  then have "every_match q (map fst q) x = Inr True" using x by blast
  then show "\<exists>v. js_get x k = Inr v \<and> strict_eq (map_of q k) v"
    using k by (rule every_match_key)
qed

theorem final_pass_checks_every_field_witness:
  "findOne ex_coll ex_s1 [(''tag'', JStr ''t''), (''age'', JNum 1)]
     = (Inr (Some (JObj ex_doc1)), snd (findOne ex_coll ex_s1 [(''tag'', JStr ''t''), (''age'', JNum 1)]))
   \<and> fst (findAll ex_coll ex_s1 [(''tag'', JStr ''t''), (''age'', JNum 1)]) = Inr [Some (JObj ex_doc1)]
   \<and> strict_eq (Some (JNum 1)) (map_of ex_doc1 ''age'')"
proof -
  let ?q = "[(''tag'', JStr ''t''), (''age'', JNum 1)]"
  have "fst (findOne ex_coll ex_s1 ?q) = Inr (Some (JObj ex_doc1))" by code_simp
  then have a: "findOne ex_coll ex_s1 ?q = (Inr (Some (JObj ex_doc1)), snd (findOne ex_coll ex_s1 ?q))"
    by (rule surj_pair)
  have b: "fst (findAll ex_coll ex_s1 ?q) = Inr [Some (JObj ex_doc1)]" by code_simp
  have k: "''age'' \<in> set (map fst ?q)" by simp
  have x: "Some (JObj ex_doc1) \<in> set [Some (JObj ex_doc1)]" by simp
  note t = final_pass_checks_every_field
      [of ex_coll ex_s1 ?q "JObj ex_doc1" "snd (findOne ex_coll ex_s1 ?q)" "''age''"
          "[Some (JObj ex_doc1)]" "Some (JObj ex_doc1)"]
  have one: "\<exists>v. js_get (Some (JObj ex_doc1)) ''age'' = Inr v \<and> strict_eq (map_of ?q ''age'') v"
    using t a k by blast
  have all: "\<exists>v. js_get (Some (JObj ex_doc1)) ''age'' = Inr v \<and> strict_eq (map_of ?q ''age'') v"
    using t b x k by blast
  from one all have "strict_eq (Some (JNum 1)) (map_of ex_doc1 ''age'')"
    by (auto simp: js_get_def)
  then show ?thesis using a b by simp
qed

text \<open>
  C7 as stated fails: \<^verbatim>\<open>age\<close> is not marked indexed, the stored document is the only
  candidate for \<^verbatim>\<open>tag\<close> = \<^verbatim>\<open>"t"\<close> and equals the query on that indexed field, yet it is
  rejected because its \<^verbatim>\<open>age\<close> differs from the queried one.
\<close>

theorem unindexed_field_is_filtered:
  "\<not> probed ex_coll ''age''
   \<and> map_of (schema ex_coll) ''age''
       = Some \<lparr>fd_index = False, fd_unique = False, fd_default = NoDefault, fd_required = False\<rparr>
   \<and> fst (findOne ex_coll ex_s1 [(''tag'', JStr ''t'')]) = Inr (Some (JObj ex_doc1))
   \<and> fst (findOne ex_coll ex_s1 [(''tag'', JStr ''t''), (''age'', JNum 2)]) = Inr None
   \<and> fst (findAll ex_coll ex_s1 [(''tag'', JStr ''t'')]) = Inr [Some (JObj ex_doc1)]
   \<and> fst (findAll ex_coll ex_s1 [(''tag'', JStr ''t''), (''age'', JNum 2)]) = Inr []"
  by code_simp


section \<open>What \<^verbatim>\<open>create\<close> does to the object it is given\<close>






section \<open>Accumulation in a non-unique index\<close>


lemma index_ids_keeps:
  assumes "grows d d' p" "map_of d p = Some x"
  shows "map_of d' p = Some x"
  using assms by (rule grows_keeps)













section \<open>The cache is never read\<close>

lemma cache_has_empty: "cache s = [] \<Longrightarrow> \<not> cache_has s p"
  by (simp add: cache_has_def)












section \<open>What the cache object retains\<close>

lemma storage_write_props:
  "cache_props (snd (storage_write s p v)) = AList.update p v (cache_props s)"
  "cache (snd (storage_write s p v)) = cache s"
  by (simp_all add: storage_write_def Let_def split: sum.splits)

lemma run_writes_props:
  "cache_props (snd (run s (writes_of ns))) =
     fold (\<lambda>i al. AList.update (key_of i) JNull al) ns (cache_props s)
   \<and> cache (snd (run s (writes_of ns))) = cache s"
proof (induction ns arbitrary: s)
  case Nil
  then show ?case by (simp add: writes_of_def)
next
  case (Cons m ns)
  obtain r s1 where w: "storage_write s (key_of m) JNull = (r, s1)"
    by (cases "storage_write s (key_of m) JNull")
  have p1: "cache_props s1 = AList.update (key_of m) JNull (cache_props s)" and c1: "cache s1 = cache s"
    using storage_write_props [of s "key_of m" JNull] by (simp_all add: w)
  have "run s (writes_of (m # ns)) =
          (OWrite r # fst (run s1 (writes_of ns)), snd (run s1 (writes_of ns)))"
    by (simp add: writes_of_def w split: prod.splits)
  then show ?case
    using Cons.IH [of s1] by (simp add: p1 c1)
qed

lemma key_of_inj: "key_of a = key_of b \<Longrightarrow> a = b"
proof -
  assume "key_of a = key_of b"
  then have "length (key_of a) = length (key_of b)" by simp
  then show "a = b" by (simp add: key_of_def)
qed

lemma keys_fold_update:
  "\<forall>i\<in>set ns. key_of i \<notin> fst ` set al \<Longrightarrow> distinct ns \<Longrightarrow>
   map fst (fold (\<lambda>i al. AList.update (key_of i) v al) ns al) = map fst al @ map key_of ns"
proof (induction ns arbitrary: al)
  case Nil
  then show ?case by simp
next
  case (Cons i ns)
  have a: "map fst (AList.update (key_of i) v al) = map fst al @ [key_of i]"
    using Cons.prems(1) by (simp add: AList.update_keys)
  have b: "\<forall>j\<in>set ns. key_of j \<notin> fst ` set (AList.update (key_of i) v al)"
  proof
    fix j assume j: "j \<in> set ns"
    then have "j \<noteq> i" using Cons.prems(2) by auto
    then have "key_of j \<noteq> key_of i" using key_of_inj by blast
    moreover have "key_of j \<notin> fst ` set al" using Cons.prems(1) j by simp
    moreover have "fst ` set (AList.update (key_of i) v al) = set (map fst al @ [key_of i])"
      using a by (metis list.set_map)
    ultimately show "key_of j \<notin> fst ` set (AList.update (key_of i) v al)"
      by auto
  qed
  show ?case using Cons.IH [OF b] Cons.prems(2) a by simp
qed

lemma props_after_writes:
  assumes d: "distinct ns" and p: "cache_props s = []" and c: "cache s = []"
  shows "length (cache_props (cacheClear (snd (run s (writes_of ns))))) = length ns
         \<and> cache (cacheClear (snd (run s (writes_of ns)))) = []"
proof -
  let ?s = "snd (run s (writes_of ns))"
  have r: "cache_props ?s = fold (\<lambda>i al. AList.update (key_of i) JNull al) ns []"
    and c': "cache ?s = []"
    using run_writes_props [of s ns] by (simp_all add: p c)
  have "map fst (cache_props ?s) = map key_of ns"
    using keys_fold_update [of ns "[]" JNull] d r by simp
  then have "length (map fst (cache_props ?s)) = length (map key_of ns)" by (rule arg_cong)
  then have l: "length (cache_props ?s) = length ns" by (simp only: length_map)
  have "cacheClear ?s = ?s" using c' by (simp add: cacheClear_def)
  then show ?thesis using l c' by simp
qed

text \<open>
  C8. The claim is that the resident cache set stays within the bound of 10000 once the
  eviction check has run. In the code, 10001 writes to distinct paths followed by the
  eviction check leave 10001 values on the cache object: \<^verbatim>\<open>write\<close> stores them as
  properties, the \<^verbatim>\<open>Map\<close> itself stays empty, and the check, which looks at
  \<^verbatim>\<open>cache.size\<close>, evicts nothing.
\<close>

theorem cache_grows_past_bound:
  "length (cache_props (cacheClear (snd (run (PlexDB folder d) (writes_of [0 ..< 10001]))))) = 10001
   \<and> cache (cacheClear (snd (run (PlexDB folder d) (writes_of [0 ..< 10001])))) = []"
proof -
  have a: "distinct [0 ..< (10001::nat)]" by (rule distinct_upt)
  have b: "cache_props (PlexDB folder d) = []" "cache (PlexDB folder d) = []"
    by (simp_all add: PlexDB_def)
  have c: "length [0 ..< (10001::nat)] = 10001" by (simp only: length_upt diff_zero)
  show ?thesis
    using props_after_writes [OF a b] by (simp only: c)
qed

section \<open>Path confinement\<close>

text \<open>
  C4. The claim is that every operation fails with \<^verbatim>\<open>PathEscapeError\<close> when the path
  resolves outside the root directory. With the root \<^verbatim>\<open>/db\<close>, the path
  \<^verbatim>\<open>../db2/secret\<close> resolves to \<^verbatim>\<open>/db2/secret\<close>, which is not under \<^verbatim>\<open>/db\<close>, yet
  \<^verbatim>\<open>prefix\<close> accepts it, because \<^verbatim>\<open>startsWith\<close> compares characters and not path
  segments; \<^verbatim>\<open>write\<close> then creates the file there.
\<close>

theorem prefix_accepts_sibling_directory:
  "storage_prefix ''/db'' ''../db2/secret'' = Inr ''/db2/secret''
   \<and> \<not> inside_root ''/db'' ''/db2/secret''
   \<and> fst (storage_write (PlexDB ''/db'' [(''/db'', Dir)]) ''../db2/secret'' (JStr ''x'')) = Inr ()
   \<and> map_of (disk (snd (storage_write (PlexDB ''/db'' [(''/db'', Dir)]) ''../db2/secret'' (JStr ''x''))))
        ''/db2/secret'' = Some (File (Some (JStr ''x'')))"
  by code_simp


end
